theory Spec2Isabelle
  imports Main "HOL-Library.AList"
begin

section \<open>Python values, faults and the collaborators outside the plugin\<close>

text \<open>
  The plugin \<^verbatim>\<open>freeseer/plugins/output/rtmp_streaming/__init__.py\<close> is Python 2.
  A raised exception is a value of type \<open>error\<close>; a statement sequence that can raise
  and that mutates objects is a function from the state to a result and the state
  reached, so that what an \<^verbatim>\<open>except\<close> clause sees after a caught fault is the
  mutated state, as in Python.
\<close>

datatype error =
    AttributeError string
  | KeyError string
  | TypeError
  | ValueError
  | JSONDecodeError
  | UnpicklingError
  | ElementNotFoundError string
  | HTTPException

text \<open>What \<^verbatim>\<open>simplejson.loads\<close> can return.\<close>

datatype json =
    JNull
  | JBool bool
  | JInt int
  | JStr string
  | JArr "json list"
  | JObj "(string \<times> json) list"

text \<open>Python's truth value of a decoded document (\<^verbatim>\<open>not data\<close>).\<close>

fun truthy :: "json \<Rightarrow> bool" where
  "truthy JNull = False"
| "truthy (JBool b) = b"
| "truthy (JInt n) = (n \<noteq> 0)"
| "truthy (JStr s) = (s \<noteq> [])"
| "truthy (JArr xs) = (xs \<noteq> [])"
| "truthy (JObj kvs) = (kvs \<noteq> [])"

text \<open>\<^verbatim>\<open>data[key]\<close> with a string key: only a dict can be subscripted by a string.\<close>

fun subscript :: "json \<Rightarrow> string \<Rightarrow> error + json" where
  "subscript (JObj kvs) k = (case map_of kvs k of None \<Rightarrow> Inl (KeyError k) | Some v \<Rightarrow> Inr v)"
| "subscript j k = Inl TypeError"

text \<open>
  A metadata dict and a \<^verbatim>\<open>gst.TagList\<close> are association lists read through
  \<open>map_of\<close>; \<^verbatim>\<open>d[k] = v\<close> is \<open>AList.update\<close>. The argument \<^verbatim>\<open>metadata\<close> is
  \<^verbatim>\<open>None\<close> or a dict.
\<close>

type_synonym dict = "(string \<times> string) list"
type_synonym metadata = "dict option"

definition keys :: "dict \<Rightarrow> string list" where
  "keys d = remdups (map fst d)"

definition dict_get :: "dict \<Rightarrow> string \<Rightarrow> error + string" where
  "dict_get d k = (case map_of d k of None \<Rightarrow> Inl (KeyError k) | Some v \<Rightarrow> Inr v)"

type_synonym oauth_token = "string \<times> string"

record credentials =
  ckey :: string
  csecret :: string

text \<open>One signed request as \<^verbatim>\<open>httplib\<close> sends it.\<close>

record http_call =
  verb :: string
  http_url :: string
  consumer :: credentials
  token :: "oauth_token option"
  parameters :: "(string \<times> string) list"

text \<open>
  Everything the plugin calls that is not in its file is a parameter: the GStreamer
  registry (which element factories are installed, the property names of an element
  of a factory, which tag names are registered), the attributes that the base class
  \<^verbatim>\<open>IOutput\<close> contributes to the lookups \<^verbatim>\<open>self.STATUS_KEYS\<close>,
  \<^verbatim>\<open>self.DESCRIPTION_KEY\<close> and \<^verbatim>\<open>self.JUSTIN_URL\<close> (the class body of
  \<^verbatim>\<open>RTMPOutput\<close> defines none of them),
  the \<^verbatim>\<open>oauth\<close> library, the platform's HTTP server, \<^verbatim>\<open>simplejson\<close>,
  \<^verbatim>\<open>str\<close> on a decoded document, and \<^verbatim>\<open>pickle\<close>.
\<close>

record env =
  element_installed :: "string \<Rightarrow> bool"
  property_names :: "string \<Rightarrow> string list"
  tag_exists :: "string \<Rightarrow> bool"
  STATUS_KEYS_attr :: "string list option"
  DESCRIPTION_KEY_attr :: "string option"
  JUSTIN_URL_attr :: "string option"
  OAuthToken_from_string :: "string \<Rightarrow> error + oauth_token"
  to_url :: "oauth_token \<Rightarrow> string"
  http :: "http_call \<Rightarrow> error + string"
  json_loads :: "string \<Rightarrow> error + json"
  py_str :: "json \<Rightarrow> string"
  pickle_loads :: "string \<Rightarrow> error + string list"
  pickle_dumps :: "string list \<Rightarrow> string"

section \<open>Module constants and the configuration record\<close>

definition TUNE_VALUES :: "string list" where
  "TUNE_VALUES = [''none'', ''film'', ''animation'', ''grain'', ''stillimage'', ''psnr'',
                  ''ssim'', ''fastdecode'', ''zerolatency'']"

definition AUDIO_CODEC_VALUES :: "string list" where
  "AUDIO_CODEC_VALUES = [''lame'', ''faac'']"

definition STREAMING_DESTINATION_VALUES :: "string list" where
  "STREAMING_DESTINATION_VALUES = [''custom'', ''justin.tv'']"

definition JUSTIN_URL :: string where
  "JUSTIN_URL = ''rtmp://live-3c.justin.tv/app/''"

definition STATUS_KEYS :: "string list" where
  "STATUS_KEYS = [''artist'', ''title'']"

definition DESCRIPTION_KEY :: string where
  "DESCRIPTION_KEY = ''comment''"

record RTMPOutputConfig =
  url :: string
  audio_quality :: int
  video_bitrate :: int
  video_tune :: string
  audio_codec :: string
  streaming_destination :: string
  streaming_key :: string
  consumer_key :: string
  consumer_secret :: string
  authorization_url :: string
  use_justin_api :: string
  justin_api_persistent :: string

definition default_config :: RTMPOutputConfig where
  "default_config =
     \<lparr>url = '''', audio_quality = 3, video_bitrate = 2400, video_tune = ''none'',
      audio_codec = ''lame'', streaming_destination = ''custom'', streaming_key = '''',
      consumer_key = '''', consumer_secret = '''', authorization_url = '''',
      use_justin_api = ''no'', justin_api_persistent = ''''\<rparr>"

section \<open>The platform client object and the plugin instance\<close>

text \<open>
  An instance of \<^verbatim>\<open>JustinApi\<close>. The class is an old-style class without a base;
  its body defines \<^verbatim>\<open>addr\<close> and the methods. The methods read
  \<^verbatim>\<open>self.config\<close>, which no statement of the file assigns on a
  \<^verbatim>\<open>JustinApi\<close>: \<open>api_config = None\<close> is an instance without that attribute,
  and the lookup raises \<^verbatim>\<open>AttributeError\<close> there. \<open>save_method = None\<close> is an
  instance on which \<^verbatim>\<open>set_save_method\<close> has not run; the only callback the file
  passes is \<^verbatim>\<open>RTMPOutput.set_justin_api_persistent\<close>.
\<close>

datatype callback = Set_justin_api_persistent

record JustinApi =
  api_config :: "credentials option"
  request_token_str :: string
  access_token_str :: string
  save_method :: "callback option"

datatype level = DEBUG | ERROR

text \<open>
  The state a call runs in: the attributes of the \<^verbatim>\<open>RTMPOutput\<close> instance that the
  modelled methods touch, the records written to the module's logger, and the requests
  sent to the platform so far.

  \<open>justin_api_persistent_attr\<close> is the instance attribute
  \<^verbatim>\<open>self.justin_api_persistent\<close> (absent until assigned); it is not the field of
  \<open>config\<close> with the same name.
\<close>

record world =
  config :: RTMPOutputConfig
  stored_config :: RTMPOutputConfig
  tags :: "dict option"
  justin_api :: "JustinApi option"
  justin_api_persistent_attr :: "string option"
  logged :: "(level \<times> string) list"
  requests :: "http_call list"

text \<open>
  Modelled from the spec: \<^verbatim>\<open>Config.save\<close> and \<^verbatim>\<open>IOutput.load_config\<close> are
  in \<^verbatim>\<open>freeseer.framework\<close>, not in the file. The spec's data model has the stream
  configuration "persisted as a flat, versionless key-value record": saving stores the
  current record, and the base class's \<^verbatim>\<open>load_config\<close> reads the stored record back.
\<close>

definition config_save :: "world \<Rightarrow> world" where
  "config_save w = w\<lparr>stored_config := config w\<rparr>"

definition super_load_config :: "world \<Rightarrow> world" where
  "super_load_config w = w\<lparr>config := stored_config w\<rparr>"

definition log_record :: "level \<Rightarrow> string \<Rightarrow> world \<Rightarrow> world" where
  "log_record l msg w = w\<lparr>logged := logged w @ [(l, msg)]\<rparr>"

text \<open>Sequencing of statements that can raise: the first fault ends the sequence.\<close>

definition andthen ::
  "(error + 'a) \<times> 's \<Rightarrow> ('a \<Rightarrow> 's \<Rightarrow> (error + 'b) \<times> 's) \<Rightarrow> (error + 'b) \<times> 's" where
  "andthen r f = (case r of (Inl e, s) \<Rightarrow> (Inl e, s) | (Inr x, s) \<Rightarrow> f x s)"

fun join :: "string \<Rightarrow> string list \<Rightarrow> string" where
  "join sep [] = []"
| "join sep [x] = x"
| "join sep (x # y # ys) = x @ sep @ join sep (y # ys)"

section \<open>Status and description derived from the metadata\<close>

text \<open>The list comprehension \<^verbatim>\<open>[metadata[k] for k in ks]\<close>: the first missing key raises.\<close>

fun lookup_each :: "dict \<Rightarrow> string list \<Rightarrow> error + string list" where
  "lookup_each d [] = Inr []"
| "lookup_each d (k # ks) =
     (case dict_get d k of
        Inl e \<Rightarrow> Inl e
      | Inr v \<Rightarrow> (case lookup_each d ks of Inl e \<Rightarrow> Inl e | Inr vs \<Rightarrow> Inr (v # vs)))"

text \<open>\<^verbatim>\<open>not metadata\<close>: \<^verbatim>\<open>None\<close> and the empty dict.\<close>

definition falsy :: "metadata \<Rightarrow> bool" where
  "falsy m = (case m of None \<Rightarrow> True | Some d \<Rightarrow> d = [])"

definition get_talk_status :: "env \<Rightarrow> metadata \<Rightarrow> error + string" where
  "get_talk_status env m =
     (if falsy m then Inr ''''
      else (case STATUS_KEYS_attr env of
              None \<Rightarrow> Inl (AttributeError ''STATUS_KEYS'')
            | Some ks \<Rightarrow>
                (case lookup_each (the m) ks of
                   Inl e \<Rightarrow> Inl e
                 | Inr vs \<Rightarrow> Inr (join '' - '' vs))))"

definition get_description :: "env \<Rightarrow> metadata \<Rightarrow> error + string" where
  "get_description env m =
     (if falsy m then Inr ''''
      else (case DESCRIPTION_KEY_attr env of
              None \<Rightarrow> Inl (AttributeError ''DESCRIPTION_KEY'')
            | Some k \<Rightarrow> dict_get (the m) k))"

section \<open>Tags from the metadata\<close>

text \<open>The loop of \<^verbatim>\<open>set_metadata\<close> over \<^verbatim>\<open>data.keys()\<close>.\<close>

fun set_metadata_loop :: "env \<Rightarrow> dict \<Rightarrow> string list \<Rightarrow> dict \<Rightarrow> (error + unit) \<times> dict" where
  "set_metadata_loop env d [] t = (Inr (), t)"
| "set_metadata_loop env d (tag # rest) t =
     (if tag_exists env tag
      then (case dict_get d tag of
              Inl e \<Rightarrow> (Inl e, t)
            | Inr v \<Rightarrow> set_metadata_loop env d rest (AList.update tag v t))
      else set_metadata_loop env d rest t)"

definition set_metadata :: "env \<Rightarrow> dict \<Rightarrow> world \<Rightarrow> (error + unit) \<times> world" where
  "set_metadata env d w =
     (case set_metadata_loop env d (keys d) [] of
        (r, t) \<Rightarrow> (r, w\<lparr>tags := Some t\<rparr>))"

section \<open>The processing graph\<close>

text \<open>
  A \<^verbatim>\<open>gst.Bin\<close> is the elements added to it, in the order of the
  \<^verbatim>\<open>bin.add\<close> calls, its ghost pads (pad name, and the element and pad it is bound
  to) and the links made, each in the order of the calls. An element carries the
  properties set on it, the tags merged into it and its tag merge mode.
\<close>

datatype propval = PInt int | PStr string

datatype TagMergeMode =
  UNDEFINED | REPLACE_ALL | REPLACE | APPEND | PREPEND | KEEP | KEEP_ALL | COUNT

definition TagMergeMode_enum_values :: "TagMergeMode list" where
  "TagMergeMode_enum_values =
     [UNDEFINED, REPLACE_ALL, REPLACE, APPEND, PREPEND, KEEP, KEEP_ALL, COUNT]"

record element =
  factory :: string
  ename :: string
  props :: "(string \<times> propval) list"
  etags :: dict
  tag_merge_mode :: "TagMergeMode option"

record gbin =
  elements :: "element list"
  ghost_pads :: "(string \<times> string \<times> string) list"
  links :: "(string \<times> string) list"

definition Bin :: gbin where
  "Bin = \<lparr>elements = [], ghost_pads = [], links = []\<rparr>"

definition element_factory_make ::
  "env \<Rightarrow> string \<Rightarrow> string \<Rightarrow> 's \<Rightarrow> (error + element) \<times> 's" where
  "element_factory_make env f n s =
     (if element_installed env f
      then (Inr \<lparr>factory = f, ename = n, props = [], etags = [], tag_merge_mode = None\<rparr>, s)
      else (Inl (ElementNotFoundError f), s))"

definition set_property :: "string \<Rightarrow> propval \<Rightarrow> element \<Rightarrow> element" where
  "set_property k v e = e\<lparr>props := AList.update k v (props e)\<rparr>"

fun tag_list_merge :: "dict \<Rightarrow> dict \<Rightarrow> TagMergeMode \<Rightarrow> dict" where
  "tag_list_merge old new REPLACE_ALL = new"
| "tag_list_merge old new REPLACE = fold (\<lambda>(k, v). AList.update k v) new old"
| "tag_list_merge old new APPEND = old @ new"
| "tag_list_merge old new PREPEND = new @ old"
| "tag_list_merge old new KEEP = old @ filter (\<lambda>(k, v). map_of old k = None) new"
| "tag_list_merge old new m = old"

definition merge_tags :: "dict \<Rightarrow> TagMergeMode \<Rightarrow> element \<Rightarrow> element" where
  "merge_tags t m e = e\<lparr>etags := tag_list_merge (etags e) t m\<rparr>"

definition bin_add :: "element \<Rightarrow> gbin \<Rightarrow> gbin" where
  "bin_add e b = b\<lparr>elements := elements b @ [e]\<rparr>"

text \<open>\<^verbatim>\<open>bin.add_pad(gst.GhostPad(name, e.get_pad(pad)))\<close>.\<close>

definition add_ghost_pad :: "string \<Rightarrow> element \<Rightarrow> string \<Rightarrow> gbin \<Rightarrow> gbin" where
  "add_ghost_pad name e pad b = b\<lparr>ghost_pads := ghost_pads b @ [(name, ename e, pad)]\<rparr>"

definition link :: "element \<Rightarrow> element \<Rightarrow> gbin \<Rightarrow> gbin" where
  "link a b g = g\<lparr>links := links g @ [(ename a, ename b)]\<rparr>"

section \<open>The platform client\<close>

definition addr :: string where
  "addr = ''api.justin.tv''"

definition except_KeyError ::
  "(error + 'a) \<times> 's \<Rightarrow> ('s \<Rightarrow> (error + 'a) \<times> 's) \<Rightarrow> (error + 'a) \<times> 's" where
  "except_KeyError r h = (case r of (Inl (KeyError k), s) \<Rightarrow> h s | (x, s) \<Rightarrow> (x, s))"

text \<open>The lookup \<^verbatim>\<open>self.config\<close> on a \<^verbatim>\<open>JustinApi\<close>.\<close>

definition self_config :: "JustinApi \<times> world \<Rightarrow> (error + credentials) \<times> (JustinApi \<times> world)" where
  "self_config s =
     (case api_config (fst s) of
        None \<Rightarrow> (Inl (AttributeError ''config''), s)
      | Some c \<Rightarrow> (Inr c, s))"

text \<open>
  \<^verbatim>\<open>connection.request(...)\<close> followed by \<^verbatim>\<open>connection.getresponse().read()\<close>:
  the request is sent, and the body comes back or the connection raises.
\<close>

definition http_send ::
  "env \<Rightarrow> http_call \<Rightarrow> JustinApi \<times> world \<Rightarrow> (error + string) \<times> (JustinApi \<times> world)" where
  "http_send env c s = (http env c, (fst s, (snd s)\<lparr>requests := requests (snd s) @ [c]\<rparr>))"

text \<open>
  The constructor. \<^verbatim>\<open>self\<close> is a new instance, which has no attribute yet; the
  first statement reads \<^verbatim>\<open>self.config\<close>.
\<close>

definition new_instance :: JustinApi where
  "new_instance =
     \<lparr>api_config = None, request_token_str = '''', access_token_str = '''', save_method = None\<rparr>"

definition JustinApi_init :: "string \<Rightarrow> string \<Rightarrow> string \<Rightarrow> string \<Rightarrow> error + JustinApi" where
  "JustinApi_init ck cs rts ats =
     (case api_config new_instance of
        None \<Rightarrow> Inl (AttributeError ''config'')
      | Some c \<Rightarrow>
          Inr (new_instance\<lparr>api_config := Some (c\<lparr>ckey := ck, csecret := cs\<rparr>),
                             request_token_str := rts, access_token_str := ats\<rparr>))"

definition open_request ::
  "env \<Rightarrow> string \<Rightarrow> string \<Rightarrow> world \<Rightarrow> (error + string \<times> JustinApi) \<times> world" where
  "open_request env ck cs w =
     (let c = \<lparr>verb = ''GET'', http_url = ''http://'' @ addr @ ''/oauth/request_token'',
               consumer = \<lparr>ckey = ck, csecret = cs\<rparr>, token = None, parameters = []\<rparr>;
          w1 = w\<lparr>requests := requests w @ [c]\<rparr>
      in andthen (http env c, w1) (\<lambda>result w2.
         andthen (OAuthToken_from_string env result, w2) (\<lambda>tok w3.
         andthen (JustinApi_init ck cs result '''', w3) (\<lambda>api w4.
           (Inr (to_url env tok, api), w4)))))"

definition from_string :: "env \<Rightarrow> string \<Rightarrow> error + JustinApi" where
  "from_string env persistent_obj =
     (case pickle_loads env persistent_obj of
        Inl e \<Rightarrow> Inl e
      | Inr [ck, cs, rts, ats] \<Rightarrow> JustinApi_init ck cs rts ats
      | Inr xs \<Rightarrow> Inl ValueError)"

definition to_string :: "env \<Rightarrow> JustinApi \<times> world \<Rightarrow> (error + string) \<times> (JustinApi \<times> world)" where
  "to_string env s =
     andthen (self_config s) (\<lambda>c s1.
       (Inr (pickle_dumps env
              [ckey c, csecret c, request_token_str (fst s1), access_token_str (fst s1)]), s1))"

text \<open>The plugin's save callback, \<^verbatim>\<open>RTMPOutput.set_justin_api_persistent\<close>.\<close>

definition set_justin_api_persistent :: "string \<Rightarrow> world \<Rightarrow> world" where
  "set_justin_api_persistent txt w = config_save (w\<lparr>justin_api_persistent_attr := Some txt\<rparr>)"

text \<open>\<^verbatim>\<open>self.save_method(self.to_string())\<close>: the callee is looked up before its argument.\<close>

definition call_save_method ::
  "env \<Rightarrow> JustinApi \<times> world \<Rightarrow> (error + unit) \<times> (JustinApi \<times> world)" where
  "call_save_method env s =
     (case save_method (fst s) of
        None \<Rightarrow> (Inl (AttributeError ''save_method''), s)
      | Some Set_justin_api_persistent \<Rightarrow>
          andthen (to_string env s) (\<lambda>txt s1.
            (Inr (), (fst s1, set_justin_api_persistent txt (snd s1)))))"

definition set_save_method ::
  "env \<Rightarrow> callback \<Rightarrow> JustinApi \<times> world \<Rightarrow> (error + unit) \<times> (JustinApi \<times> world)" where
  "set_save_method env m s = call_save_method env ((fst s)\<lparr>save_method := Some m\<rparr>, snd s)"

definition obtain_access_token ::
  "env \<Rightarrow> JustinApi \<times> world \<Rightarrow> (error + unit) \<times> (JustinApi \<times> world)" where
  "obtain_access_token env s =
     except_KeyError
       (andthen (self_config s) (\<lambda>c s1.
        andthen (OAuthToken_from_string env (request_token_str (fst s1)), s1) (\<lambda>tok s2.
        andthen (http_send env
                   \<lparr>verb = ''GET'', http_url = ''http://'' @ addr @ ''/oauth/access_token'',
                    consumer = c, token = Some tok, parameters = []\<rparr> s2) (\<lambda>result s3.
        let s4 = ((fst s3)\<lparr>access_token_str := result\<rparr>, snd s3) in
        andthen (OAuthToken_from_string env result, s4) (\<lambda>_ s5.
          call_save_method env s5)))))
       (\<lambda>s'. (Inr (),
               (fst s', log_record ERROR ''justin.tv API: failed to obtain an access token'' (snd s'))))"

text \<open>
  The handler of \<^verbatim>\<open>get_data\<close> is written
  \<^verbatim>\<open>except KeyError, simplejson.decoder.JSONDecodeError:\<close>. In Python 2 that
  catches \<^verbatim>\<open>KeyError\<close> and binds the caught exception to the second name; a
  \<^verbatim>\<open>JSONDecodeError\<close> is not caught by it.
\<close>

definition get_data ::
  "env \<Rightarrow> string \<Rightarrow> JustinApi \<times> world \<Rightarrow> (error + json) \<times> (JustinApi \<times> world)" where
  "get_data env endpoint s =
     except_KeyError
       (andthen (OAuthToken_from_string env (access_token_str (fst s)), s) (\<lambda>tok s1.
        andthen (self_config s1) (\<lambda>c s2.
        andthen (http_send env
                   \<lparr>verb = ''GET'', http_url = ''http://'' @ addr @ ''/api/'' @ endpoint,
                    consumer = c, token = Some tok, parameters = []\<rparr> s2) (\<lambda>result s3.
          (json_loads env result, s3)))))
       (\<lambda>s'. (Inr (JObj []),
               (fst s', log_record ERROR
                  (''justin.tv API: failed fetch data from endpoint '' @ endpoint) (snd s'))))"

definition set_data ::
  "env \<Rightarrow> string \<Rightarrow> (string \<times> string) list \<Rightarrow> JustinApi \<times> world
     \<Rightarrow> (error + string option) \<times> (JustinApi \<times> world)" where
  "set_data env endpoint payload s =
     except_KeyError
       (andthen (OAuthToken_from_string env (access_token_str (fst s)), s) (\<lambda>tok s1.
        andthen (self_config s1) (\<lambda>c s2.
        andthen (http_send env
                   \<lparr>verb = ''POST'', http_url = ''http://'' @ addr @ ''/api/'' @ endpoint,
                    consumer = c, token = Some tok, parameters = payload\<rparr> s2) (\<lambda>result s3.
          (Inr (Some result), s3)))))
       (\<lambda>s'. (Inr None,
               (fst s', log_record ERROR
                  (''justin.tv API: failed write data to endpoint '' @ endpoint) (snd s'))))"

definition set_channel_status ::
  "env \<Rightarrow> string \<Rightarrow> string \<Rightarrow> JustinApi \<times> world \<Rightarrow> (error + unit) \<times> (JustinApi \<times> world)" where
  "set_channel_status env status description s =
     andthen (if access_token_str (fst s) = [] then obtain_access_token env s else (Inr (), s))
       (\<lambda>_ s1.
     andthen (get_data env ''account/whoami.json'' s1) (\<lambda>data s2.
       if \<not> truthy data then (Inr (), s2)
       else
         andthen (subscript data ''login'', s2) (\<lambda>login s3.
         andthen (get_data env (''channel/show/'' @ py_str env login @ ''.json'') s3) (\<lambda>data' s4.
         andthen (set_data env ''channel/update.json''
                    [(''title'', status), (''status'', status), (''description'', description)] s4)
           (\<lambda>_ s5. (Inr (), s5))))))"

section \<open>The plugin\<close>

text \<open>
  \<^verbatim>\<open>get_output_bin\<close> is one function in the source; its commented blocks are named
  here and composed below in the source's order. Lines 169-179: the muxer, its tags and
  its tag merge mode.
\<close>

definition make_muxer :: "env \<Rightarrow> metadata \<Rightarrow> world \<Rightarrow> (error + element) \<times> world" where
  "make_muxer env metadata w =
     andthen (element_factory_make env ''flvmux'' ''muxer'' w) (\<lambda>muxer0 w1.
     let merge_mode = TagMergeMode_enum_values ! 2 in
     andthen (case metadata of
                None \<Rightarrow> (Inr muxer0, w1)
              | Some d \<Rightarrow>
                  (case tags w1 of
                     None \<Rightarrow> (Inl TypeError, w1)
                   | Some t \<Rightarrow> (Inr (merge_tags t merge_mode muxer0), w1))) (\<lambda>muxer1 w2.
       (Inr (muxer1\<lparr>tag_merge_mode := Some merge_mode\<rparr>), w2)))"

text \<open>Lines 191-220: the audio chain, its ghost pad and its links.\<close>

definition audio_pipeline ::
  "env \<Rightarrow> element \<Rightarrow> gbin \<Rightarrow> world \<Rightarrow> (error + gbin) \<times> world" where
  "audio_pipeline env muxer bin w =
     andthen (element_factory_make env ''queue'' ''audioqueue'' w) (\<lambda>audioqueue a1.
     andthen (element_factory_make env ''audioconvert'' ''audioconvert'' a1) (\<lambda>audioconvert a2.
     andthen (element_factory_make env ''level'' ''audiolevel'' a2) (\<lambda>audiolevel0 a3.
     let audiolevel = set_property ''interval'' (PInt 20000000) audiolevel0 in
     andthen (element_factory_make env (audio_codec (config a3)) ''audiocodec'' a3)
       (\<lambda>audiocodec0 a4.
     let names = property_names env (factory audiocodec0);
         audiocodec =
           (if ''quality'' \<in> set names
            then set_property ''quality'' (PInt (audio_quality (config a4))) audiocodec0
            else audiocodec0);
         a5 =
           (if ''quality'' \<in> set names then a4
            else log_record DEBUG
                   (''WARNING: Missing property: 'quality' on audiocodec; available: ''
                      @ join '','' names) a4)
     in (Inr ((link audiocodec muxer
              \<circ> link audiolevel audiocodec
              \<circ> link audioconvert audiolevel
              \<circ> link audioqueue audioconvert
              \<circ> add_ghost_pad ''audiosink'' audioqueue ''sink''
              \<circ> bin_add audiocodec
              \<circ> bin_add audiolevel
              \<circ> bin_add audioconvert
              \<circ> bin_add audioqueue) bin), a5)))))"

text \<open>Lines 225-242: the video chain, its ghost pad and its links.\<close>

definition video_pipeline ::
  "env \<Rightarrow> element \<Rightarrow> gbin \<Rightarrow> world \<Rightarrow> (error + gbin) \<times> world" where
  "video_pipeline env muxer bin w =
     andthen (element_factory_make env ''queue'' ''videoqueue'' w) (\<lambda>videoqueue v1.
     andthen (element_factory_make env ''x264enc'' ''videocodec'' v1) (\<lambda>videocodec0 v2.
     let videocodec1 = set_property ''bitrate'' (PInt (video_bitrate (config v2))) videocodec0;
         videocodec =
           (if video_tune (config v2) \<noteq> ''none''
            then set_property ''tune'' (PStr (video_tune (config v2))) videocodec1
            else videocodec1)
     in (Inr ((link videocodec muxer
              \<circ> link videoqueue videocodec
              \<circ> add_ghost_pad ''videosink'' videoqueue ''sink''
              \<circ> bin_add videocodec
              \<circ> bin_add videoqueue) bin), v2)))"

text \<open>
  Lines 249-251: the push of the channel status. Python looks up
  \<^verbatim>\<open>self.justin_api.set_channel_status\<close> before it evaluates the two arguments;
  \<^verbatim>\<open>justin_api\<close> is the class attribute \<^verbatim>\<open>None\<close> until a client is assigned.
\<close>

definition push_channel_status :: "env \<Rightarrow> metadata \<Rightarrow> world \<Rightarrow> (error + unit) \<times> world" where
  "push_channel_status env metadata w =
     (if streaming_destination (config w) = STREAMING_DESTINATION_VALUES ! 1
         \<and> use_justin_api (config w) = ''yes''
      then
        (case justin_api w of
           None \<Rightarrow> (Inl (AttributeError ''set_channel_status''), w)
         | Some api \<Rightarrow>
             andthen (get_talk_status env metadata, w) (\<lambda>status p1.
             andthen (get_description env metadata, p1) (\<lambda>description p2.
               case set_channel_status env status description (api, p2) of
                 (r, api', p3) \<Rightarrow> (r, p3\<lparr>justin_api := Some api'\<rparr>))))
      else (Inr (), w))"

definition get_output_bin ::
  "env \<Rightarrow> bool \<Rightarrow> bool \<Rightarrow> metadata \<Rightarrow> world \<Rightarrow> (error + gbin) \<times> world" where
  "get_output_bin env audio video metadata w0 =
     andthen (case metadata of None \<Rightarrow> (Inr (), w0) | Some d \<Rightarrow> set_metadata env d w0) (\<lambda>_ w1.
     andthen (make_muxer env metadata w1) (\<lambda>muxer w2.
     let bin1 = bin_add muxer Bin in
     andthen (element_factory_make env ''rtmpsink'' ''rtmpsink'' w2) (\<lambda>rtmpsink0 w3.
     let rtmpsink = set_property ''location'' (PStr (url (config w3))) rtmpsink0;
         bin2 = bin_add rtmpsink bin1 in
     andthen (if audio then audio_pipeline env muxer bin2 w3 else (Inr bin2, w3)) (\<lambda>bin3 w4.
     andthen (if video then video_pipeline env muxer bin3 w4 else (Inr bin3, w4)) (\<lambda>bin4 w5.
     let bin5 = link muxer rtmpsink bin4 in
     andthen (push_channel_status env metadata w5) (\<lambda>_ w6.
       (Inr bin5, w6)))))))"

definition load_config :: "env \<Rightarrow> world \<Rightarrow> (error + unit) \<times> world" where
  "load_config env w =
     (let w1 = super_load_config w in
      if justin_api_persistent (config w1) \<noteq> [] then
        andthen (from_string env (justin_api_persistent (config w1)), w1) (\<lambda>api w2.
          case set_save_method env Set_justin_api_persistent (api, w2\<lparr>justin_api := Some api\<rparr>) of
            (r, api', w3) \<Rightarrow> (r, w3\<lparr>justin_api := Some api'\<rparr>))
      else (Inr (), w1))"





section \<open>Concrete environments and states for evaluation\<close>

text \<open>
  \<open>env0\<close>: every element factory is installed, \<^verbatim>\<open>lame\<close> has a \<^verbatim>\<open>quality\<close>
  property and \<^verbatim>\<open>faac\<close> has none, the tags \<^verbatim>\<open>title\<close>, \<^verbatim>\<open>artist\<close> and
  \<^verbatim>\<open>comment\<close> are registered, the base class contributes none of
  \<^verbatim>\<open>STATUS_KEYS\<close>, \<^verbatim>\<open>DESCRIPTION_KEY\<close> and \<^verbatim>\<open>JUSTIN_URL\<close>, a token string
  parses only in the
  form below, the platform answers every request with an empty body, and no body decodes
  as JSON or unpickles.
\<close>

definition env0 :: env where
  "env0 =
     \<lparr>element_installed = (\<lambda>f. True),
      property_names = (\<lambda>f. if f = ''lame'' then [''name'', ''bitrate'', ''quality'']
                             else [''name'', ''bitrate'']),
      tag_exists = (\<lambda>t. t = ''title'' \<or> t = ''artist'' \<or> t = ''comment''),
      STATUS_KEYS_attr = None,
      DESCRIPTION_KEY_attr = None,
      JUSTIN_URL_attr = None,
      OAuthToken_from_string =
        (\<lambda>s. if s = ''oauth_token=tk&oauth_token_secret=ts'' then Inr (''tk'', ''ts'')
              else Inl (KeyError ''oauth_token'')),
      to_url = (\<lambda>t. ''http://api.justin.tv/oauth/authorize?oauth_token='' @ fst t),
      http = (\<lambda>c. Inr []),
      json_loads = (\<lambda>s. Inl JSONDecodeError),
      py_str = (\<lambda>j. case j of JStr s \<Rightarrow> s | _ \<Rightarrow> ''?''),
      pickle_loads = (\<lambda>s. Inl UnpicklingError),
      pickle_dumps = (\<lambda>xs. join ''|'' xs)\<rparr>"

text \<open>\<open>env_attrs\<close>: as \<open>env0\<close>, but the two attribute lookups find the module constants.\<close>

definition env_attrs :: env where
  "env_attrs = env0\<lparr>STATUS_KEYS_attr := Some STATUS_KEYS,
                     DESCRIPTION_KEY_attr := Some DESCRIPTION_KEY\<rparr>"

text \<open>A plugin instance as the class body leaves it, with the default configuration.\<close>

definition world0 :: world where
  "world0 =
     \<lparr>config = default_config, stored_config = default_config, tags = None,
      justin_api = None, justin_api_persistent_attr = None, logged = [], requests = []\<rparr>"

text \<open>The configuration that streams to the platform and pushes the channel properties.\<close>

definition justin_config :: RTMPOutputConfig where
  "justin_config =
     default_config\<lparr>streaming_destination := ''justin.tv'', use_justin_api := ''yes''\<rparr>"

text \<open>
  A client with a parsable access token; \<open>client_with_config\<close> also has the attribute
  \<^verbatim>\<open>config\<close>, which the file never gives a client.
\<close>

definition client :: JustinApi where
  "client =
     \<lparr>api_config = None, request_token_str = '''',
      access_token_str = ''oauth_token=tk&oauth_token_secret=ts'',
      save_method = Some Set_justin_api_persistent\<rparr>"

definition client_with_config :: JustinApi where
  "client_with_config = client\<lparr>api_config := Some \<lparr>ckey = ''ck'', csecret = ''cs''\<rparr>\<rparr>"

section \<open>Sequencing lemmas\<close>

lemma andthen_Inr [simp]: "andthen (Inr x, s) f = f x s"
  by (simp add: andthen_def)

lemma andthen_Inl [simp]: "andthen (Inl e, s) f = (Inl e, s)"
  by (simp add: andthen_def)

lemma andthen_Inr_iff:
  "andthen r f = (Inr y, s') \<longleftrightarrow> (\<exists>x s. r = (Inr x, s) \<and> f x s = (Inr y, s'))"
  by (auto simp: andthen_def split: prod.splits sum.splits)

lemma element_factory_make_Inr_iff:
  "element_factory_make env f n s = (Inr e, s') \<longleftrightarrow>
     element_installed env f \<and> s' = s \<and>
     e = \<lparr>factory = f, ename = n, props = [], etags = [], tag_merge_mode = None\<rparr>"
  by (auto simp: element_factory_make_def)

section \<open>Tags from the metadata: what set-metadata keeps\<close>

lemma set_metadata_loop_result:
  "set ks \<subseteq> fst ` set d \<Longrightarrow>
   \<exists>t'. set_metadata_loop env d ks t = (Inr (), t') \<and>
        (\<forall>k. map_of t' k =
               (if k \<in> set ks \<and> tag_exists env k then map_of d k else map_of t k))"
proof (induction ks arbitrary: t)
  case Nil
  then show ?case by simp
next
  case (Cons a ks)
  from Cons.prems have "a \<in> fst ` set d" by simp
  then obtain v where v: "map_of d a = Some v"
    by (cases "map_of d a") (auto simp: map_of_eq_None_iff)
  from Cons.prems have sub: "set ks \<subseteq> fst ` set d" by simp
  show ?case
  proof (cases "tag_exists env a")
    case True
    from Cons.IH[OF sub, of "AList.update a v t"] obtain t' where
      run: "set_metadata_loop env d ks (AList.update a v t) = (Inr (), t')" and
      look: "\<forall>k. map_of t' k =
                  (if k \<in> set ks \<and> tag_exists env k then map_of d k
                   else map_of (AList.update a v t) k)"
      by blast
    from True v run have "set_metadata_loop env d (a # ks) t = (Inr (), t')"
      by (simp add: dict_get_def)
    moreover from True v look have
      "\<forall>k. map_of t' k =
            (if k \<in> set (a # ks) \<and> tag_exists env k then map_of d k else map_of t k)"
      by (auto simp: update_conv')
    ultimately show ?thesis by blast
  next
    case False
    from Cons.IH[OF sub, of t] obtain t' where
      run: "set_metadata_loop env d ks t = (Inr (), t')" and
      look: "\<forall>k. map_of t' k =
                  (if k \<in> set ks \<and> tag_exists env k then map_of d k else map_of t k)"
      by blast
    from False run have "set_metadata_loop env d (a # ks) t = (Inr (), t')" by simp
    moreover from False look have
      "\<forall>k. map_of t' k =
            (if k \<in> set (a # ks) \<and> tag_exists env k then map_of d k else map_of t k)"
      by auto
    ultimately show ?thesis by blast
  qed
qed

lemma set_metadata_result:
  "\<exists>t. set_metadata env d w = (Inr (), w\<lparr>tags := Some t\<rparr>) \<and>
       (\<forall>k. map_of t k = (if tag_exists env k then map_of d k else None))"
proof -
  have "set (keys d) \<subseteq> fst ` set d" by (simp add: keys_def)
  from set_metadata_loop_result[OF this, of env "[]"] obtain t where
    run: "set_metadata_loop env d (keys d) [] = (Inr (), t)" and
    look: "\<forall>k. map_of t k =
                (if k \<in> set (keys d) \<and> tag_exists env k then map_of d k else map_of [] k)"
    by blast
  have "map_of t k = (if tag_exists env k then map_of d k else None)" for k
  proof (cases "k \<in> set (keys d)")
    case True
    with look show ?thesis by simp
  next
    case False
    then have "map_of d k = None" by (simp add: keys_def map_of_eq_None_iff)
    with look False show ?thesis by simp
  qed
  then have look': "\<forall>k. map_of t k = (if tag_exists env k then map_of d k else None)"
    by blast
  from run have "set_metadata env d w = (Inr (), w\<lparr>tags := Some t\<rparr>)"
    by (simp add: set_metadata_def)
  with look' show ?thesis by blast
qed

text \<open>
  C10. For every metadata dict, \<^verbatim>\<open>set_metadata\<close> raises nothing and leaves in
  \<^verbatim>\<open>self.tags\<close> a tag list that maps exactly the keys of the dict that GStreamer
  registers as tags, each to the value the dict gives it; every other key is absent.
\<close>

theorem set_metadata_keeps_exactly_registered_tags:
  "\<exists>t. set_metadata env d w = (Inr (), w\<lparr>tags := Some t\<rparr>) \<and>
       (\<forall>k. map_of t k = (if tag_exists env k then map_of d k else None)) \<and>
       fst ` set t = {k \<in> fst ` set d. tag_exists env k}"
proof -
  from set_metadata_result[of env d w] obtain t where
    run: "set_metadata env d w = (Inr (), w\<lparr>tags := Some t\<rparr>)" and
    look: "\<forall>k. map_of t k = (if tag_exists env k then map_of d k else None)"
    by blast
  have "k \<in> fst ` set t \<longleftrightarrow> k \<in> fst ` set d \<and> tag_exists env k" for k
  proof -
    have "k \<in> fst ` set t \<longleftrightarrow> map_of t k \<noteq> None" by (simp add: map_of_eq_None_iff)
    also have "\<dots> \<longleftrightarrow> tag_exists env k \<and> map_of d k \<noteq> None" using look by simp
    also have "\<dots> \<longleftrightarrow> k \<in> fst ` set d \<and> tag_exists env k"
      by (auto simp: map_of_eq_None_iff)
    finally show ?thesis .
  qed
  then have "fst ` set t = {k \<in> fst ` set d. tag_exists env k}" by blast
  with run look show ?thesis by blast
qed

section \<open>Status and description: what the two getters return\<close>

lemma getters_when_attributes_resolve:
  "STATUS_KEYS_attr env = Some STATUS_KEYS \<Longrightarrow> DESCRIPTION_KEY_attr env = Some DESCRIPTION_KEY \<Longrightarrow>
   get_talk_status env (Some [(''title'', T), (''artist'', A), (''comment'', C)])
     = Inr (A @ '' - '' @ T) \<and>
   get_description env (Some [(''title'', T), (''artist'', A), (''comment'', C)]) = Inr C"
  by (simp add: get_talk_status_def get_description_def falsy_def dict_get_def
      STATUS_KEYS_def DESCRIPTION_KEY_def)

text \<open>
  C2. The claim is that for \<^verbatim>\<open>{title: T, artist: A, comment: C}\<close> the status is
  \<^verbatim>\<open>A - T\<close> and the description \<^verbatim>\<open>C\<close>, with no exception. The getters read
  \<^verbatim>\<open>self.STATUS_KEYS\<close> and \<^verbatim>\<open>self.DESCRIPTION_KEY\<close>, but the file defines both
  names at module level (lines 125-126) and not in the class body of \<^verbatim>\<open>RTMPOutput\<close>:
  unless the base class supplies them, both calls raise \<^verbatim>\<open>AttributeError\<close> on this
  metadata.
\<close>

theorem getters_raise_on_module_level_constants:
  "STATUS_KEYS_attr env = None \<Longrightarrow> DESCRIPTION_KEY_attr env = None \<Longrightarrow>
   get_talk_status env (Some [(''title'', T), (''artist'', A), (''comment'', C)])
     = Inl (AttributeError ''STATUS_KEYS'') \<and>
   get_description env (Some [(''title'', T), (''artist'', A), (''comment'', C)])
     = Inl (AttributeError ''DESCRIPTION_KEY'')"
  by (simp add: get_talk_status_def get_description_def falsy_def)

theorem getters_raise_on_module_level_constants_witness:
  "STATUS_KEYS_attr env0 = None \<and> DESCRIPTION_KEY_attr env0 = None \<and>
   get_talk_status env0 (Some [(''title'', ''T''), (''artist'', ''A''), (''comment'', ''C'')])
     = Inl (AttributeError ''STATUS_KEYS'') \<and>
   get_description env0 (Some [(''title'', ''T''), (''artist'', ''A''), (''comment'', ''C'')])
     = Inl (AttributeError ''DESCRIPTION_KEY'')"
proof -
  have a: "STATUS_KEYS_attr env0 = None" and b: "DESCRIPTION_KEY_attr env0 = None"
    by (simp_all add: env0_def)
  from getters_raise_on_module_level_constants[OF a b, of "''T''" "''A''" "''C''"] a b
  show ?thesis by simp
qed

lemma lookup_each_missing:
  "k \<in> set ks \<Longrightarrow> k \<notin> fst ` set d \<Longrightarrow> isl (lookup_each d ks)"
proof (induction ks)
  case Nil
  then show ?case by simp
next
  case (Cons a ks)
  show ?case
  proof (cases "map_of d a")
    case None
    then show ?thesis by (simp add: dict_get_def)
  next
    case (Some v)
    then have "a \<in> fst ` set d" by (metis map_of_eq_None_iff option.distinct(1))
    with Cons.prems have "k \<noteq> a" by blast
    with Cons have "isl (lookup_each d ks)" by simp
    with Some show ?thesis by (auto simp: dict_get_def split: sum.splits)
  qed
qed

text \<open>
  C4, as the code has it. For \<^verbatim>\<open>metadata = None\<close>, and for the empty dict, both
  getters return the empty string. For a non-empty dict that lacks \<^verbatim>\<open>artist\<close> or
  \<^verbatim>\<open>title\<close>, \<^verbatim>\<open>get_talk_status\<close> fails with an error; for one that lacks
  \<^verbatim>\<open>comment\<close>, \<^verbatim>\<open>get_description\<close> fails with an error. Neither returns an
  empty string for the missing field. This holds whether the lookup of the key names
  fails, as in the file as it stands (C2), or finds the module constants; in the second
  case the description's fault is the \<^verbatim>\<open>KeyError\<close> of \<^verbatim>\<open>metadata[key]\<close>.
\<close>

theorem getters_on_absent_and_incomplete_metadata:
  "STATUS_KEYS_attr env = None \<or> STATUS_KEYS_attr env = Some STATUS_KEYS \<Longrightarrow>
   DESCRIPTION_KEY_attr env = None \<or> DESCRIPTION_KEY_attr env = Some DESCRIPTION_KEY \<Longrightarrow>
   get_talk_status env None = Inr [] \<and> get_description env None = Inr [] \<and>
   get_talk_status env (Some []) = Inr [] \<and> get_description env (Some []) = Inr [] \<and>
   (d \<noteq> [] \<and> (''artist'' \<notin> fst ` set d \<or> ''title'' \<notin> fst ` set d)
      \<longrightarrow> isl (get_talk_status env (Some d))) \<and>
   (d \<noteq> [] \<and> ''comment'' \<notin> fst ` set d \<longrightarrow> isl (get_description env (Some d))) \<and>
   (d \<noteq> [] \<and> ''comment'' \<notin> fst ` set d \<and> DESCRIPTION_KEY_attr env = Some DESCRIPTION_KEY
      \<longrightarrow> get_description env (Some d) = Inl (KeyError ''comment''))"
proof -
  assume sk: "STATUS_KEYS_attr env = None \<or> STATUS_KEYS_attr env = Some STATUS_KEYS"
    and dk: "DESCRIPTION_KEY_attr env = None \<or> DESCRIPTION_KEY_attr env = Some DESCRIPTION_KEY"
  have none: "get_talk_status env None = Inr [] \<and> get_description env None = Inr [] \<and>
     get_talk_status env (Some []) = Inr [] \<and> get_description env (Some []) = Inr []"
    by (simp add: get_talk_status_def get_description_def falsy_def)
  have status: "isl (get_talk_status env (Some d))"
    if ne: "d \<noteq> []" and miss: "''artist'' \<notin> fst ` set d \<or> ''title'' \<notin> fst ` set d"
  proof -
    from miss obtain k where "k \<in> set STATUS_KEYS" "k \<notin> fst ` set d"
      by (auto simp: STATUS_KEYS_def)
    then have "isl (lookup_each d STATUS_KEYS)" by (rule lookup_each_missing)
    with sk ne show ?thesis
      by (auto simp: get_talk_status_def falsy_def split: sum.splits)
  qed
  have descr: "get_description env (Some d) = Inl (KeyError ''comment'')"
    if "d \<noteq> []" "''comment'' \<notin> fst ` set d" "DESCRIPTION_KEY_attr env = Some DESCRIPTION_KEY"
  proof -
    from that have "map_of d ''comment'' = None" by (simp add: map_of_eq_None_iff)
    with that show ?thesis
      by (simp add: get_description_def falsy_def dict_get_def DESCRIPTION_KEY_def)
  qed
  have descr': "isl (get_description env (Some d))"
    if ne: "d \<noteq> []" and miss: "''comment'' \<notin> fst ` set d"
  proof (cases "DESCRIPTION_KEY_attr env")
    case None
    with ne show ?thesis by (simp add: get_description_def falsy_def)
  next
    case (Some k)
    with dk have "DESCRIPTION_KEY_attr env = Some DESCRIPTION_KEY" by simp
    with descr[OF ne miss] show ?thesis by simp
  qed
  from none status descr descr' show ?thesis by blast
qed

theorem getters_on_absent_and_incomplete_metadata_witness:
  "get_talk_status env0 None = Inr [] \<and> get_description env0 None = Inr [] \<and>
   isl (get_talk_status env0 (Some [(''title'', ''T'')])) \<and>
   isl (get_description env0 (Some [(''title'', ''T'')])) \<and>
   isl (get_talk_status env_attrs (Some [(''title'', ''T'')])) \<and>
   get_description env_attrs (Some [(''title'', ''T'')]) = Inl (KeyError ''comment'')"
proof -
  have a0: "STATUS_KEYS_attr env0 = None \<or> STATUS_KEYS_attr env0 = Some STATUS_KEYS"
    and b0: "DESCRIPTION_KEY_attr env0 = None \<or> DESCRIPTION_KEY_attr env0 = Some DESCRIPTION_KEY"
    by (simp_all add: env0_def)
  have a: "STATUS_KEYS_attr env_attrs = None \<or> STATUS_KEYS_attr env_attrs = Some STATUS_KEYS"
    and b: "DESCRIPTION_KEY_attr env_attrs = None
            \<or> DESCRIPTION_KEY_attr env_attrs = Some DESCRIPTION_KEY"
    by (simp_all add: env_attrs_def)
  have c: "DESCRIPTION_KEY_attr env_attrs = Some DESCRIPTION_KEY"
    by (simp add: env_attrs_def)
  from getters_on_absent_and_incomplete_metadata[OF a0 b0, of "[(''title'', ''T'')]"]
  have w0: "get_talk_status env0 None = Inr [] \<and> get_description env0 None = Inr [] \<and>
     isl (get_talk_status env0 (Some [(''title'', ''T'')])) \<and>
     isl (get_description env0 (Some [(''title'', ''T'')]))"
    by simp
  from getters_on_absent_and_incomplete_metadata[OF a b, of "[(''title'', ''T'')]"] c
  have w1: "isl (get_talk_status env_attrs (Some [(''title'', ''T'')])) \<and>
     get_description env_attrs (Some [(''title'', ''T'')]) = Inl (KeyError ''comment'')"
    by simp
  from w0 w1 show ?thesis by simp
qed

text \<open>
  The claim C4 as it is stated fails. In the file as it stands, with a dict that has no
  \<^verbatim>\<open>comment\<close> the description is a fault, and with one that has no \<^verbatim>\<open>artist\<close>
  the status is a fault (the \<^verbatim>\<open>AttributeError\<close> of C2); and where the two key names
  are found, the same calls raise the \<^verbatim>\<open>KeyError\<close> of the plain subscript
  \<^verbatim>\<open>metadata[key]\<close>. In neither case is an empty string returned.
\<close>

theorem getters_missing_field_counterexample:
  "get_description env0 (Some [(''artist'', ''A''), (''title'', ''T'')])
     = Inl (AttributeError ''DESCRIPTION_KEY'') \<and>
   get_talk_status env0 (Some [(''title'', ''T''), (''comment'', ''C'')])
     = Inl (AttributeError ''STATUS_KEYS'') \<and>
   get_description env_attrs (Some [(''artist'', ''A''), (''title'', ''T'')])
     = Inl (KeyError ''comment'') \<and>
   get_talk_status env_attrs (Some [(''title'', ''T''), (''comment'', ''C'')])
     = Inl (KeyError ''artist'')"
  by (simp add: get_talk_status_def get_description_def falsy_def dict_get_def env_attrs_def
      env0_def STATUS_KEYS_def DESCRIPTION_KEY_def)

section \<open>The platform client: construction and persistence\<close>

lemma JustinApi_init_raises: "JustinApi_init ck cs rts ats = Inl (AttributeError ''config'')"
  by (simp add: JustinApi_init_def new_instance_def)

lemma from_string_raises: "isl (from_string env p)"
  by (auto simp: from_string_def JustinApi_init_raises split: sum.splits list.splits)

lemma open_request_raises: "isl (fst (open_request env ck cs w))"
  by (auto simp: open_request_def Let_def andthen_def JustinApi_init_raises
      split: sum.splits prod.splits)

lemma open_request_after_reply:
  "http env \<lparr>verb = ''GET'', http_url = ''http://api.justin.tv/oauth/request_token'',
              consumer = \<lparr>ckey = ck, csecret = cs\<rparr>, token = None, parameters = []\<rparr> = Inr body \<Longrightarrow>
   OAuthToken_from_string env body = Inr tok \<Longrightarrow>
   fst (open_request env ck cs w) = Inl (AttributeError ''config'')"
  by (simp add: open_request_def addr_def Let_def JustinApi_init_raises)

lemma from_string_after_unpickling:
  "pickle_loads env p = Inr [a, b, c, d] \<Longrightarrow> from_string env p = Inl (AttributeError ''config'')"
  by (simp add: from_string_def JustinApi_init_raises)

text \<open>
  C6, as the code has it. The constructor always raises the attribute-lookup fault, since
  its first statement reads \<^verbatim>\<open>self.config\<close> on the new instance. So neither
  \<^verbatim>\<open>open_request\<close> nor \<^verbatim>\<open>from_string\<close> ever returns a client: each raises, and
  the fault is that \<^verbatim>\<open>AttributeError\<close> whenever the steps before the constructor
  call succeed (the request-token reply arrives and parses; the blob unpickles to four
  items).
\<close>

theorem no_client_is_constructed:
  "JustinApi_init ck cs rts ats = Inl (AttributeError ''config'') \<and>
   isl (fst (open_request env ck cs w)) \<and>
   isl (from_string env p) \<and>
   (http env \<lparr>verb = ''GET'', http_url = ''http://api.justin.tv/oauth/request_token'',
              consumer = \<lparr>ckey = ck, csecret = cs\<rparr>, token = None, parameters = []\<rparr> = Inr body
      \<and> OAuthToken_from_string env body = Inr tok
      \<longrightarrow> fst (open_request env ck cs w) = Inl (AttributeError ''config'')) \<and>
   (pickle_loads env p = Inr [a, b, c, d]
      \<longrightarrow> from_string env p = Inl (AttributeError ''config''))"
  using open_request_after_reply[of env ck cs body tok w] from_string_after_unpickling[of env p a b c d]
  by (simp add: JustinApi_init_raises from_string_raises open_request_raises)

theorem no_client_is_constructed_witness:
  "fst (open_request
          (env0\<lparr>http := (\<lambda>c. Inr ''oauth_token=tk&oauth_token_secret=ts''),
                pickle_loads := (\<lambda>s. Inr [''ck'', ''cs'', ''rt'', ''at''])\<rparr>)
          ''ck'' ''cs'' world0) = Inl (AttributeError ''config'') \<and>
   from_string
          (env0\<lparr>http := (\<lambda>c. Inr ''oauth_token=tk&oauth_token_secret=ts''),
                pickle_loads := (\<lambda>s. Inr [''ck'', ''cs'', ''rt'', ''at''])\<rparr>)
          ''blob'' = Inl (AttributeError ''config'')"
  using no_client_is_constructed
    [of "''ck''" "''cs''" "''rt''" "''at''"
        "env0\<lparr>http := (\<lambda>c. Inr ''oauth_token=tk&oauth_token_secret=ts''),
              pickle_loads := (\<lambda>s. Inr [''ck'', ''cs'', ''rt'', ''at''])\<rparr>"
        world0 "''blob''" "''oauth_token=tk&oauth_token_secret=ts''" "(''tk'', ''ts'')"
        "''ck''" "''cs''" "''rt''" "''at''"]
  by (simp add: env0_def)

text \<open>
  The claim C6 as it is stated fails for \<^verbatim>\<open>open_request\<close> and
  \<^verbatim>\<open>from_string\<close>: when the platform's reply holds no token, \<^verbatim>\<open>open_request\<close>
  raises the \<^verbatim>\<open>KeyError\<close> that \<^verbatim>\<open>apply_justin_settings\<close> catches (line 604), and
  when the blob does not unpickle \<^verbatim>\<open>from_string\<close> raises that fault; neither is an
  attribute-lookup fault.
\<close>

theorem open_request_fault_counterexample:
  "fst (open_request env0 ''ck'' ''cs'' world0) = Inl (KeyError ''oauth_token'') \<and>
   from_string env0 ''blob'' = Inl UnpicklingError"
  by (simp add: open_request_def from_string_def env0_def Let_def)

text \<open>
  C7. The claim is that the save callback persists the serialized credential state into
  the configuration record's \<^verbatim>\<open>justin_api_persistent\<close> field, from which
  \<^verbatim>\<open>load_config\<close> rebuilds the client. The callback assigns
  \<^verbatim>\<open>self.justin_api_persistent\<close>, an attribute of the plugin instance, and then
  saves the configuration unchanged: the field of the configuration keeps its old value,
  in the record and in what is stored, and with the default empty value a later
  \<^verbatim>\<open>load_config\<close> rebuilds no client.
\<close>

theorem save_callback_leaves_configuration_field:
  "config (set_justin_api_persistent txt w) = config w \<and>
   stored_config (set_justin_api_persistent txt w) = config w \<and>
   justin_api_persistent_attr (set_justin_api_persistent txt w) = Some txt \<and>
   (justin_api_persistent (config w) = [] \<longrightarrow>
      fst (load_config env (set_justin_api_persistent txt w)) = Inr () \<and>
      justin_api (snd (load_config env (set_justin_api_persistent txt w))) = justin_api w)"
  by (simp add: set_justin_api_persistent_def config_save_def load_config_def
      super_load_config_def Let_def)

theorem save_callback_leaves_configuration_field_witness:
  "justin_api_persistent (config (set_justin_api_persistent ''blob'' world0)) = [] \<and>
   justin_api_persistent (stored_config (set_justin_api_persistent ''blob'' world0)) = [] \<and>
   fst (load_config env0 (set_justin_api_persistent ''blob'' world0)) = Inr () \<and>
   justin_api (snd (load_config env0 (set_justin_api_persistent ''blob'' world0))) = None"
  using save_callback_leaves_configuration_field[of "''blob''" world0 env0]
  by (simp add: world0_def default_config_def)

section \<open>The processing graph: what the builder returns\<close>

lemma audio_pipeline_Inr_iff:
  "audio_pipeline env m b w = (Inr b', w') \<longleftrightarrow>
     element_installed env ''queue'' \<and> element_installed env ''audioconvert'' \<and>
     element_installed env ''level'' \<and> element_installed env (audio_codec (config w)) \<and>
     b' = b\<lparr>elements := elements b @
             [\<lparr>factory = ''queue'', ename = ''audioqueue'', props = [], etags = [], tag_merge_mode = None\<rparr>,
              \<lparr>factory = ''audioconvert'', ename = ''audioconvert'', props = [], etags = [],
                tag_merge_mode = None\<rparr>,
              \<lparr>factory = ''level'', ename = ''audiolevel'', props = [(''interval'', PInt 20000000)],
                etags = [], tag_merge_mode = None\<rparr>,
              \<lparr>factory = audio_codec (config w), ename = ''audiocodec'',
                props = (if ''quality'' \<in> set (property_names env (audio_codec (config w)))
                         then [(''quality'', PInt (audio_quality (config w)))] else []),
                etags = [], tag_merge_mode = None\<rparr>],
           ghost_pads := ghost_pads b @ [(''audiosink'', ''audioqueue'', ''sink'')],
           links := links b @ [(''audioqueue'', ''audioconvert''), (''audioconvert'', ''audiolevel''),
                               (''audiolevel'', ''audiocodec''), (''audiocodec'', ename m)]\<rparr> \<and>
     w' = (if ''quality'' \<in> set (property_names env (audio_codec (config w))) then w
           else log_record DEBUG
                  (''WARNING: Missing property: 'quality' on audiocodec; available: ''
                     @ join '','' (property_names env (audio_codec (config w)))) w)"
  unfolding audio_pipeline_def Let_def
  by (auto simp: andthen_Inr_iff element_factory_make_Inr_iff bin_add_def add_ghost_pad_def
      link_def set_property_def)

lemma video_pipeline_Inr_iff:
  "video_pipeline env m b w = (Inr b', w') \<longleftrightarrow>
     element_installed env ''queue'' \<and> element_installed env ''x264enc'' \<and>
     b' = b\<lparr>elements := elements b @
             [\<lparr>factory = ''queue'', ename = ''videoqueue'', props = [], etags = [], tag_merge_mode = None\<rparr>,
              \<lparr>factory = ''x264enc'', ename = ''videocodec'',
                props = (if video_tune (config w) \<noteq> ''none''
                         then [(''bitrate'', PInt (video_bitrate (config w))),
                               (''tune'', PStr (video_tune (config w)))]
                         else [(''bitrate'', PInt (video_bitrate (config w)))]),
                etags = [], tag_merge_mode = None\<rparr>],
           ghost_pads := ghost_pads b @ [(''videosink'', ''videoqueue'', ''sink'')],
           links := links b @ [(''videoqueue'', ''videocodec''), (''videocodec'', ename m)]\<rparr> \<and>
     w' = w"
  unfolding video_pipeline_def Let_def
  by (auto simp: andthen_Inr_iff element_factory_make_Inr_iff bin_add_def add_ghost_pad_def
      link_def set_property_def)

lemma make_muxer_Inr_iff:
  "make_muxer env md w = (Inr m, w') \<longleftrightarrow>
     element_installed env ''flvmux'' \<and> w' = w \<and>
     (case md of
        None \<Rightarrow> m = \<lparr>factory = ''flvmux'', ename = ''muxer'', props = [], etags = [],
                      tag_merge_mode = Some REPLACE\<rparr>
      | Some d \<Rightarrow> (\<exists>t. tags w = Some t \<and>
                     m = \<lparr>factory = ''flvmux'', ename = ''muxer'', props = [],
                          etags = fold (\<lambda>(k, v). AList.update k v) t [],
                          tag_merge_mode = Some REPLACE\<rparr>))"
  unfolding make_muxer_def Let_def
  by (auto simp: andthen_Inr_iff element_factory_make_Inr_iff merge_tags_def
      TagMergeMode_enum_values_def split: option.splits)

lemma set_metadata_frame:
  "set_metadata env d w = (r, w') \<Longrightarrow> \<exists>t. w' = w\<lparr>tags := Some t\<rparr>"
  by (auto simp: set_metadata_def split: prod.splits)

lemma metadata_step:
  "\<exists>w1. (case md of None \<Rightarrow> (Inr (), w) | Some d \<Rightarrow> set_metadata env d w) = (Inr (), w1) \<and>
        config w1 = config w \<and> justin_api w1 = justin_api w \<and> requests w1 = requests w \<and>
        logged w1 = logged w \<and> (md \<noteq> None \<longrightarrow> tags w1 \<noteq> None)"
proof (cases md)
  case None
  then show ?thesis by simp
next
  case (Some d)
  from set_metadata_result[of env d w] obtain t where
    "set_metadata env d w = (Inr (), w\<lparr>tags := Some t\<rparr>)" by blast
  with Some show ?thesis by simp
qed

lemma push_frame:
  "\<not> (streaming_destination (config w) = ''justin.tv'' \<and> use_justin_api (config w) = ''yes'') \<Longrightarrow>
   push_channel_status env md w = (Inr (), w)"
  by (auto simp: push_channel_status_def STREAMING_DESTINATION_VALUES_def)

lemma audio_step:
  assumes "audio \<longrightarrow> element_installed env ''queue'' \<and> element_installed env ''audioconvert'' \<and>
       element_installed env ''level'' \<and> element_installed env (audio_codec (config w))"
  shows "\<exists>b' w'. (if audio then audio_pipeline env m b w else (Inr b, w)) = (Inr b', w') \<and>
     config w' = config w \<and> justin_api w' = justin_api w \<and> requests w' = requests w"
proof (cases audio)
  case True
  with assms have "audio_pipeline env m b w =
     (Inr (b\<lparr>elements := elements b @
             [\<lparr>factory = ''queue'', ename = ''audioqueue'', props = [], etags = [], tag_merge_mode = None\<rparr>,
              \<lparr>factory = ''audioconvert'', ename = ''audioconvert'', props = [], etags = [],
                tag_merge_mode = None\<rparr>,
              \<lparr>factory = ''level'', ename = ''audiolevel'', props = [(''interval'', PInt 20000000)],
                etags = [], tag_merge_mode = None\<rparr>,
              \<lparr>factory = audio_codec (config w), ename = ''audiocodec'',
                props = (if ''quality'' \<in> set (property_names env (audio_codec (config w)))
                         then [(''quality'', PInt (audio_quality (config w)))] else []),
                etags = [], tag_merge_mode = None\<rparr>],
           ghost_pads := ghost_pads b @ [(''audiosink'', ''audioqueue'', ''sink'')],
           links := links b @ [(''audioqueue'', ''audioconvert''), (''audioconvert'', ''audiolevel''),
                               (''audiolevel'', ''audiocodec''), (''audiocodec'', ename m)]\<rparr>),
      (if ''quality'' \<in> set (property_names env (audio_codec (config w))) then w
           else log_record DEBUG
                  (''WARNING: Missing property: 'quality' on audiocodec; available: ''
                     @ join '','' (property_names env (audio_codec (config w)))) w))"
    by (simp only: audio_pipeline_Inr_iff simp_thms)
  with True show ?thesis by (simp add: log_record_def)
next
  case False
  then show ?thesis by simp
qed

lemma video_step:
  assumes "video \<longrightarrow> element_installed env ''queue'' \<and> element_installed env ''x264enc''"
  shows "\<exists>b'. (if video then video_pipeline env m b w else (Inr b, w)) = (Inr b', w)"
proof (cases video)
  case True
  with assms show ?thesis by (simp add: video_pipeline_Inr_iff)
next
  case False
  then show ?thesis by simp
qed

lemma muxer_step:
  assumes "element_installed env ''flvmux''" "md \<noteq> None \<longrightarrow> tags w \<noteq> None"
  shows "\<exists>m. make_muxer env md w = (Inr m, w)"
proof (cases md)
  case None
  with assms show ?thesis by (simp add: make_muxer_Inr_iff)
next
  case (Some d)
  with assms obtain t where "tags w = Some t" by auto
  with assms Some show ?thesis by (simp add: make_muxer_Inr_iff)
qed

lemma get_output_bin_reaches_push:
  assumes inst: "element_installed env ''flvmux''" "element_installed env ''rtmpsink''"
    and ainst: "audio \<longrightarrow> element_installed env ''queue'' \<and> element_installed env ''audioconvert'' \<and>
       element_installed env ''level'' \<and> element_installed env (audio_codec (config w))"
    and vinst: "video \<longrightarrow> element_installed env ''queue'' \<and> element_installed env ''x264enc''"
  shows "\<exists>b wp. config wp = config w \<and> justin_api wp = justin_api w \<and> requests wp = requests w \<and>
           get_output_bin env audio video md w =
             andthen (push_channel_status env md wp) (\<lambda>_ w'. (Inr b, w'))"
proof -
  from metadata_step[where md = md and w = w and env = env] obtain w1 where
    a1: "(case md of None \<Rightarrow> (Inr (), w) | Some d \<Rightarrow> set_metadata env d w) = (Inr (), w1) \<and>
        config w1 = config w \<and> justin_api w1 = justin_api w \<and> requests w1 = requests w \<and>
        logged w1 = logged w \<and> (md \<noteq> None \<longrightarrow> tags w1 \<noteq> None)" ..
  then have s1: "(case md of None \<Rightarrow> (Inr (), w) | Some d \<Rightarrow> set_metadata env d w) = (Inr (), w1)"
    and f1: "config w1 = config w" "justin_api w1 = justin_api w" "requests w1 = requests w"
    and t1: "md \<noteq> None \<longrightarrow> tags w1 \<noteq> None"
    by simp_all
  from muxer_step[OF inst(1) t1] obtain m where s2: "make_muxer env md w1 = (Inr m, w1)" ..
  from inst(2) have s3: "element_factory_make env ''rtmpsink'' ''rtmpsink'' w1 =
      (Inr \<lparr>factory = ''rtmpsink'', ename = ''rtmpsink'', props = [], etags = [], tag_merge_mode = None\<rparr>, w1)"
    by (simp add: element_factory_make_def)
  define rtmpsink where "rtmpsink = set_property ''location'' (PStr (url (config w1)))
       \<lparr>factory = ''rtmpsink'', ename = ''rtmpsink'', props = [], etags = [], tag_merge_mode = None\<rparr>"
  from ainst f1 have ainst1: "audio \<longrightarrow> element_installed env ''queue'' \<and> element_installed env ''audioconvert'' \<and>
       element_installed env ''level'' \<and> element_installed env (audio_codec (config w1))"
    by simp
  from audio_step[of audio env w1 m "bin_add rtmpsink (bin_add m Bin)", OF ainst1]
  obtain b3 w4 where a4: "(if audio then audio_pipeline env m (bin_add rtmpsink (bin_add m Bin)) w1
              else (Inr (bin_add rtmpsink (bin_add m Bin)), w1)) = (Inr b3, w4) \<and>
     config w4 = config w1 \<and> justin_api w4 = justin_api w1 \<and> requests w4 = requests w1"
    by (elim exE)
  then have s4: "(if audio then audio_pipeline env m (bin_add rtmpsink (bin_add m Bin)) w1
              else (Inr (bin_add rtmpsink (bin_add m Bin)), w1)) = (Inr b3, w4)"
    and f4: "config w4 = config w1" "justin_api w4 = justin_api w1" "requests w4 = requests w1"
    by simp_all
  from video_step[of video env m b3 w4, OF vinst] obtain b4 where
    s5: "(if video then video_pipeline env m b3 w4 else (Inr b3, w4)) = (Inr b4, w4)" ..
  have g: "get_output_bin env audio video md w =
      andthen (push_channel_status env md w4) (\<lambda>_ w'. (Inr (link m rtmpsink b4), w'))"
    unfolding get_output_bin_def Let_def
    by (simp only: s1 andthen_Inr s2 s3 rtmpsink_def[symmetric] s4 s5)
  from f1 f4 have fr: "config w4 = config w" "justin_api w4 = justin_api w" "requests w4 = requests w"
    by simp_all
  show ?thesis
    by (rule exI[of _ "link m rtmpsink b4"], rule exI[of _ w4]) (simp only: fr g simp_thms)
qed


lemma get_output_bin_returns:
  assumes "element_installed env ''flvmux''" "element_installed env ''rtmpsink''"
    and "audio \<longrightarrow> element_installed env ''queue'' \<and> element_installed env ''audioconvert'' \<and>
       element_installed env ''level'' \<and> element_installed env (audio_codec (config w))"
    and "video \<longrightarrow> element_installed env ''queue'' \<and> element_installed env ''x264enc''"
    and np: "\<not> (streaming_destination (config w) = ''justin.tv'' \<and> use_justin_api (config w) = ''yes'')"
  shows "\<exists>b w'. get_output_bin env audio video md w = (Inr b, w')"
proof -
  from get_output_bin_reaches_push[OF assms(1-4), of md] obtain b wp where
    a: "config wp = config w \<and> justin_api wp = justin_api w \<and> requests wp = requests w \<and>
        get_output_bin env audio video md w =
          andthen (push_channel_status env md wp) (\<lambda>_ w'. (Inr b, w'))"
    by (elim exE)
  then have "config wp = config w" by simp
  with np have "push_channel_status env md wp = (Inr (), wp)" by (simp add: push_frame)
  with a have "get_output_bin env audio video md w = (Inr b, wp)" by simp
  then show ?thesis by (intro exI)
qed

lemma metadata_frame:
  "(case md of None \<Rightarrow> (Inr (), w) | Some d \<Rightarrow> set_metadata env d w) = (r, s) \<Longrightarrow>
   config s = config w \<and> justin_api s = justin_api w \<and> requests s = requests w"
  by (cases md) (auto dest: set_metadata_frame)

lemma make_muxer_Inr_D:
  "make_muxer env md w = (Inr m, w') \<Longrightarrow>
   w' = w \<and> ename m = ''muxer'' \<and> factory m = ''flvmux'' \<and> tag_merge_mode m = Some REPLACE \<and>
   props m = [] \<and> element_installed env ''flvmux''"
  by (cases md) (auto simp: make_muxer_Inr_iff)

lemma get_output_bin_Inr_D:
  assumes "get_output_bin env audio video md w = (Inr b, w')"
  shows "ghost_pads b =
           (if audio then [(''audiosink'', ''audioqueue'', ''sink'')] else []) @
           (if video then [(''videosink'', ''videoqueue'', ''sink'')] else []) \<and>
         links b =
           (if audio then [(''audioqueue'', ''audioconvert''), (''audioconvert'', ''audiolevel''),
                           (''audiolevel'', ''audiocodec''), (''audiocodec'', ''muxer'')] else []) @
           (if video then [(''videoqueue'', ''videocodec''), (''videocodec'', ''muxer'')] else []) @
           [(''muxer'', ''rtmpsink'')] \<and>
         (\<exists>m. ename m = ''muxer'' \<and> factory m = ''flvmux'' \<and> tag_merge_mode m = Some REPLACE \<and>
         elements b =
           [m, \<lparr>factory = ''rtmpsink'', ename = ''rtmpsink'',
                props = [(''location'', PStr (url (config w)))], etags = [], tag_merge_mode = None\<rparr>] @
           (if audio then
             [\<lparr>factory = ''queue'', ename = ''audioqueue'', props = [], etags = [], tag_merge_mode = None\<rparr>,
              \<lparr>factory = ''audioconvert'', ename = ''audioconvert'', props = [], etags = [],
                tag_merge_mode = None\<rparr>,
              \<lparr>factory = ''level'', ename = ''audiolevel'', props = [(''interval'', PInt 20000000)],
                etags = [], tag_merge_mode = None\<rparr>,
              \<lparr>factory = audio_codec (config w), ename = ''audiocodec'',
                props = (if ''quality'' \<in> set (property_names env (audio_codec (config w)))
                         then [(''quality'', PInt (audio_quality (config w)))] else []),
                etags = [], tag_merge_mode = None\<rparr>] else []) @
           (if video then
             [\<lparr>factory = ''queue'', ename = ''videoqueue'', props = [], etags = [], tag_merge_mode = None\<rparr>,
              \<lparr>factory = ''x264enc'', ename = ''videocodec'',
                props = (if video_tune (config w) \<noteq> ''none''
                         then [(''bitrate'', PInt (video_bitrate (config w))),
                               (''tune'', PStr (video_tune (config w)))]
                         else [(''bitrate'', PInt (video_bitrate (config w)))]),
                etags = [], tag_merge_mode = None\<rparr>] else []))"
  using assms unfolding get_output_bin_def Let_def
  apply (simp only: andthen_Inr_iff)
  apply (elim exE conjE)
  apply (simp only: element_factory_make_Inr_iff prod.inject sum.inject)
  apply (elim conjE)
  apply hypsubst
  apply (drule metadata_frame)
  apply (drule make_muxer_Inr_D)
  apply (cases audio; cases video)
     apply (clarsimp simp: audio_pipeline_Inr_iff video_pipeline_Inr_iff bin_add_def link_def
      Bin_def set_property_def log_record_def)+
  done


text \<open>
  C5. Whenever \<^verbatim>\<open>get_output_bin\<close> returns a bin, its ghost pads are exactly one pad
  \<^verbatim>\<open>audiosink\<close> if audio is enabled and one pad \<^verbatim>\<open>videosink\<close> if video is
  enabled, in that order and no other; each is bound to the \<^verbatim>\<open>sink\<close> pad of the
  \<^verbatim>\<open>queue\<close> element that heads its chain (nothing links into it, and it links to the
  next element of the chain).
\<close>

theorem get_output_bin_ghost_pads:
  "get_output_bin env audio video md w = (Inr b, w') \<Longrightarrow>
   ghost_pads b =
     (if audio then [(''audiosink'', ''audioqueue'', ''sink'')] else []) @
     (if video then [(''videosink'', ''videoqueue'', ''sink'')] else []) \<and>
   (audio \<longrightarrow>
      map factory (filter (\<lambda>e. ename e = ''audioqueue'') (elements b)) = [''queue''] \<and>
      ''audioqueue'' \<notin> snd ` set (links b) \<and>
      (''audioqueue'', ''audioconvert'') \<in> set (links b)) \<and>
   (video \<longrightarrow>
      map factory (filter (\<lambda>e. ename e = ''videoqueue'') (elements b)) = [''queue''] \<and>
      ''videoqueue'' \<notin> snd ` set (links b) \<and>
      (''videoqueue'', ''videocodec'') \<in> set (links b))"
proof -
  assume "get_output_bin env audio video md w = (Inr b, w')"
  from get_output_bin_Inr_D[OF this] show ?thesis
    by (cases audio; cases video) (clarsimp, clarsimp, clarsimp, clarsimp)
qed

theorem get_output_bin_ghost_pads_witness:
  "(\<exists>b w'. get_output_bin env0 True True None world0 = (Inr b, w') \<and>
      ghost_pads b = [(''audiosink'', ''audioqueue'', ''sink''), (''videosink'', ''videoqueue'', ''sink'')]) \<and>
   (\<exists>b w'. get_output_bin env0 True False None world0 = (Inr b, w') \<and>
      ghost_pads b = [(''audiosink'', ''audioqueue'', ''sink'')]) \<and>
   (\<exists>b w'. get_output_bin env0 False True None world0 = (Inr b, w') \<and>
      ghost_pads b = [(''videosink'', ''videoqueue'', ''sink'')])"
proof -
  have "\<exists>b w'. get_output_bin env0 True True None world0 = (Inr b, w')"
    by (rule get_output_bin_returns) (simp_all add: env0_def world0_def default_config_def)
  then obtain b1 w1 where h1: "get_output_bin env0 True True None world0 = (Inr b1, w1)"
    by (elim exE)
  have "\<exists>b w'. get_output_bin env0 True False None world0 = (Inr b, w')"
    by (rule get_output_bin_returns) (simp_all add: env0_def world0_def default_config_def)
  then obtain b2 w2 where h2: "get_output_bin env0 True False None world0 = (Inr b2, w2)"
    by (elim exE)
  have "\<exists>b w'. get_output_bin env0 False True None world0 = (Inr b, w')"
    by (rule get_output_bin_returns) (simp_all add: env0_def world0_def default_config_def)
  then obtain b3 w3 where h3: "get_output_bin env0 False True None world0 = (Inr b3, w3)"
    by (elim exE)
  from get_output_bin_ghost_pads[OF h1] have
    p1: "ghost_pads b1 = [(''audiosink'', ''audioqueue'', ''sink''), (''videosink'', ''videoqueue'', ''sink'')]"
    by simp
  from get_output_bin_ghost_pads[OF h2] have
    p2: "ghost_pads b2 = [(''audiosink'', ''audioqueue'', ''sink'')]"
    by simp
  from get_output_bin_ghost_pads[OF h3] have
    p3: "ghost_pads b3 = [(''videosink'', ''videoqueue'', ''sink'')]"
    by simp
  from h1 p1 have c1: "\<exists>b w'. get_output_bin env0 True True None world0 = (Inr b, w') \<and>
      ghost_pads b = [(''audiosink'', ''audioqueue'', ''sink''), (''videosink'', ''videoqueue'', ''sink'')]"
    by (intro exI[of _ b1] exI[of _ w1] conjI)
  from h2 p2 have c2: "\<exists>b w'. get_output_bin env0 True False None world0 = (Inr b, w') \<and>
      ghost_pads b = [(''audiosink'', ''audioqueue'', ''sink'')]"
    by (intro exI[of _ b2] exI[of _ w2] conjI)
  from h3 p3 have c3: "\<exists>b w'. get_output_bin env0 False True None world0 = (Inr b, w') \<and>
      ghost_pads b = [(''videosink'', ''videoqueue'', ''sink'')]"
    by (intro exI[of _ b3] exI[of _ w3] conjI)
  from c1 c2 c3 show ?thesis by (intro conjI)
qed

text \<open>
  C8. Whenever \<^verbatim>\<open>get_output_bin\<close> returns a bin with video enabled, the bin holds one
  element named \<^verbatim>\<open>videocodec\<close>, made by \<^verbatim>\<open>x264enc\<close>; its \<^verbatim>\<open>bitrate\<close> is the
  configured video bitrate, and its \<^verbatim>\<open>tune\<close> property is not set when the configured
  preset is \<^verbatim>\<open>none\<close> and is the configured string for every other value.
\<close>

theorem video_codec_bitrate_and_tune:
  "get_output_bin env audio True md w = (Inr b, w') \<Longrightarrow>
   map (\<lambda>e. (factory e, props e)) (filter (\<lambda>e. ename e = ''videocodec'') (elements b)) =
     [(''x264enc'',
       if video_tune (config w) = ''none''
       then [(''bitrate'', PInt (video_bitrate (config w)))]
       else [(''bitrate'', PInt (video_bitrate (config w))),
             (''tune'', PStr (video_tune (config w)))])]"
proof -
  assume "get_output_bin env audio True md w = (Inr b, w')"
  from get_output_bin_Inr_D[OF this] show ?thesis
    by (cases audio) (clarsimp, clarsimp)
qed

theorem video_codec_bitrate_and_tune_witness:
  "(\<exists>b w'. get_output_bin env0 True True None world0 = (Inr b, w') \<and>
      map (\<lambda>e. (factory e, props e)) (filter (\<lambda>e. ename e = ''videocodec'') (elements b)) =
        [(''x264enc'', [(''bitrate'', PInt 2400)])]) \<and>
   (\<exists>b w'. get_output_bin env0 True True None
              (world0\<lparr>config := default_config\<lparr>video_tune := ''film''\<rparr>\<rparr>) = (Inr b, w') \<and>
      map (\<lambda>e. (factory e, props e)) (filter (\<lambda>e. ename e = ''videocodec'') (elements b)) =
        [(''x264enc'', [(''bitrate'', PInt 2400), (''tune'', PStr ''film'')])])"
proof -
  have "\<exists>b w'. get_output_bin env0 True True None world0 = (Inr b, w')"
    by (rule get_output_bin_returns) (simp_all add: env0_def world0_def default_config_def)
  then obtain b1 w1 where h1: "get_output_bin env0 True True None world0 = (Inr b1, w1)"
    by (elim exE)
  have "\<exists>b w'. get_output_bin env0 True True None
          (world0\<lparr>config := default_config\<lparr>video_tune := ''film''\<rparr>\<rparr>) = (Inr b, w')"
    by (rule get_output_bin_returns) (simp_all add: env0_def world0_def default_config_def)
  then obtain b2 w2 where
    h2: "get_output_bin env0 True True None
           (world0\<lparr>config := default_config\<lparr>video_tune := ''film''\<rparr>\<rparr>) = (Inr b2, w2)"
    by (elim exE)
  from video_codec_bitrate_and_tune[OF h1] have
    p1: "map (\<lambda>e. (factory e, props e)) (filter (\<lambda>e. ename e = ''videocodec'') (elements b1)) =
        [(''x264enc'', [(''bitrate'', PInt 2400)])]"
    by (simp add: world0_def default_config_def)
  from video_codec_bitrate_and_tune[OF h2] have
    p2: "map (\<lambda>e. (factory e, props e)) (filter (\<lambda>e. ename e = ''videocodec'') (elements b2)) =
        [(''x264enc'', [(''bitrate'', PInt 2400), (''tune'', PStr ''film'')])]"
    by (simp add: world0_def default_config_def)
  from h1 p1 have c1: "\<exists>b w'. get_output_bin env0 True True None world0 = (Inr b, w') \<and>
      map (\<lambda>e. (factory e, props e)) (filter (\<lambda>e. ename e = ''videocodec'') (elements b)) =
        [(''x264enc'', [(''bitrate'', PInt 2400)])]"
    by (intro exI[of _ b1] exI[of _ w1] conjI)
  from h2 p2 have c2: "\<exists>b w'. get_output_bin env0 True True None
              (world0\<lparr>config := default_config\<lparr>video_tune := ''film''\<rparr>\<rparr>) = (Inr b, w') \<and>
      map (\<lambda>e. (factory e, props e)) (filter (\<lambda>e. ename e = ''videocodec'') (elements b)) =
        [(''x264enc'', [(''bitrate'', PInt 2400), (''tune'', PStr ''film'')])]"
    by (intro exI[of _ b2] exI[of _ w2] conjI)
  from c1 c2 show ?thesis by (intro conjI)
qed

text \<open>
  C9. With audio enabled, whether or not the element made for the configured codec has a
  \<^verbatim>\<open>quality\<close> property: whenever \<^verbatim>\<open>get_output_bin\<close> returns a bin, the audio chain
  is linked queue, converter, level, codec, muxer, and the codec element carries the
  configured audio quality as its \<^verbatim>\<open>quality\<close> exactly when it has that property, and
  no property otherwise. The branch raises nothing: if the element factories the call
  needs are installed and no channel-status push is configured, the call returns a bin.
\<close>

theorem audio_chain_with_and_without_quality:
  "(get_output_bin env True video md w = (Inr b, w') \<longrightarrow>
      set [(''audioqueue'', ''audioconvert''), (''audioconvert'', ''audiolevel''),
           (''audiolevel'', ''audiocodec''), (''audiocodec'', ''muxer'')] \<subseteq> set (links b) \<and>
      map (\<lambda>e. (factory e, props e)) (filter (\<lambda>e. ename e = ''audiocodec'') (elements b)) =
        [(audio_codec (config w),
          if ''quality'' \<in> set (property_names env (audio_codec (config w)))
          then [(''quality'', PInt (audio_quality (config w)))] else [])]) \<and>
   (element_installed env ''flvmux'' \<and> element_installed env ''rtmpsink'' \<and>
    element_installed env ''queue'' \<and> element_installed env ''audioconvert'' \<and>
    element_installed env ''level'' \<and> element_installed env (audio_codec (config w)) \<and>
    (video \<longrightarrow> element_installed env ''x264enc'') \<and>
    \<not> (streaming_destination (config w) = ''justin.tv'' \<and> use_justin_api (config w) = ''yes'')
    \<longrightarrow> (\<exists>b w'. get_output_bin env True video md w = (Inr b, w')))"
proof (intro conjI impI)
  assume "get_output_bin env True video md w = (Inr b, w')"
  from get_output_bin_Inr_D[OF this]
  show "set [(''audioqueue'', ''audioconvert''), (''audioconvert'', ''audiolevel''),
           (''audiolevel'', ''audiocodec''), (''audiocodec'', ''muxer'')] \<subseteq> set (links b)"
    by (cases video) (clarsimp, clarsimp)
next
  assume "get_output_bin env True video md w = (Inr b, w')"
  from get_output_bin_Inr_D[OF this]
  show "map (\<lambda>e. (factory e, props e)) (filter (\<lambda>e. ename e = ''audiocodec'') (elements b)) =
        [(audio_codec (config w),
          if ''quality'' \<in> set (property_names env (audio_codec (config w)))
          then [(''quality'', PInt (audio_quality (config w)))] else [])]"
    by (cases video) (clarsimp, clarsimp)
next
  assume a: "element_installed env ''flvmux'' \<and> element_installed env ''rtmpsink'' \<and>
    element_installed env ''queue'' \<and> element_installed env ''audioconvert'' \<and>
    element_installed env ''level'' \<and> element_installed env (audio_codec (config w)) \<and>
    (video \<longrightarrow> element_installed env ''x264enc'') \<and>
    \<not> (streaming_destination (config w) = ''justin.tv'' \<and> use_justin_api (config w) = ''yes'')"
  show "\<exists>b w'. get_output_bin env True video md w = (Inr b, w')"
    by (rule get_output_bin_returns) (use a in simp_all)
qed

theorem audio_chain_with_and_without_quality_witness:
  "(\<exists>b w'. get_output_bin env0 True True None world0 = (Inr b, w') \<and>
      map (\<lambda>e. (factory e, props e)) (filter (\<lambda>e. ename e = ''audiocodec'') (elements b)) =
        [(''lame'', [(''quality'', PInt 3)])]) \<and>
   (\<exists>b w'. get_output_bin env0 True True None
              (world0\<lparr>config := default_config\<lparr>audio_codec := ''faac''\<rparr>\<rparr>) = (Inr b, w') \<and>
      map (\<lambda>e. (factory e, props e)) (filter (\<lambda>e. ename e = ''audiocodec'') (elements b)) =
        [(''faac'', [])] \<and>
      set [(''audioqueue'', ''audioconvert''), (''audioconvert'', ''audiolevel''),
           (''audiolevel'', ''audiocodec''), (''audiocodec'', ''muxer'')] \<subseteq> set (links b))"
proof -
  let ?w2 = "world0\<lparr>config := default_config\<lparr>audio_codec := ''faac''\<rparr>\<rparr>"
  have q1: "''quality'' \<in> set (property_names env0 (audio_codec (config world0)))"
    by (simp add: env0_def world0_def default_config_def)
  have q2: "''quality'' \<notin> set (property_names env0 (audio_codec (config ?w2)))"
    by (simp add: env0_def world0_def default_config_def)
  have i1: "element_installed env0 ''flvmux'' \<and> element_installed env0 ''rtmpsink'' \<and>
    element_installed env0 ''queue'' \<and> element_installed env0 ''audioconvert'' \<and>
    element_installed env0 ''level'' \<and> element_installed env0 (audio_codec (config world0)) \<and>
    (True \<longrightarrow> element_installed env0 ''x264enc'') \<and>
    \<not> (streaming_destination (config world0) = ''justin.tv'' \<and> use_justin_api (config world0) = ''yes'')"
    by (simp add: env0_def world0_def default_config_def)
  have i2: "element_installed env0 ''flvmux'' \<and> element_installed env0 ''rtmpsink'' \<and>
    element_installed env0 ''queue'' \<and> element_installed env0 ''audioconvert'' \<and>
    element_installed env0 ''level'' \<and> element_installed env0 (audio_codec (config ?w2)) \<and>
    (True \<longrightarrow> element_installed env0 ''x264enc'') \<and>
    \<not> (streaming_destination (config ?w2) = ''justin.tv'' \<and> use_justin_api (config ?w2) = ''yes'')"
    by (simp add: env0_def world0_def default_config_def)
  from audio_chain_with_and_without_quality[of env0 True None world0, THEN conjunct2] i1
  obtain b1 w1 where h1: "get_output_bin env0 True True None world0 = (Inr b1, w1)"
    by (elim impE exE)
  from audio_chain_with_and_without_quality[of env0 True None ?w2, THEN conjunct2] i2
  obtain b2 w2 where h2: "get_output_bin env0 True True None ?w2 = (Inr b2, w2)"
    by (elim impE exE)
  from audio_chain_with_and_without_quality[of env0 True None world0 b1 w1, THEN conjunct1] h1 q1
  have p1: "map (\<lambda>e. (factory e, props e)) (filter (\<lambda>e. ename e = ''audiocodec'') (elements b1)) =
        [(''lame'', [(''quality'', PInt 3)])]"
    by (simp add: world0_def default_config_def)
  from audio_chain_with_and_without_quality[of env0 True None ?w2 b2 w2, THEN conjunct1] h2 q2
  have p2: "map (\<lambda>e. (factory e, props e)) (filter (\<lambda>e. ename e = ''audiocodec'') (elements b2)) =
        [(''faac'', [])] \<and>
      set [(''audioqueue'', ''audioconvert''), (''audioconvert'', ''audiolevel''),
           (''audiolevel'', ''audiocodec''), (''audiocodec'', ''muxer'')] \<subseteq> set (links b2)"
    by (simp add: world0_def default_config_def)
  from h1 p1 have c1: "\<exists>b w'. get_output_bin env0 True True None world0 = (Inr b, w') \<and>
      map (\<lambda>e. (factory e, props e)) (filter (\<lambda>e. ename e = ''audiocodec'') (elements b)) =
        [(''lame'', [(''quality'', PInt 3)])]"
    by (intro exI[of _ b1] exI[of _ w1] conjI)
  from h2 p2 have c2: "\<exists>b w'. get_output_bin env0 True True None ?w2 = (Inr b, w') \<and>
      map (\<lambda>e. (factory e, props e)) (filter (\<lambda>e. ename e = ''audiocodec'') (elements b)) =
        [(''faac'', [])] \<and>
      set [(''audioqueue'', ''audioconvert''), (''audioconvert'', ''audiolevel''),
           (''audiolevel'', ''audiocodec''), (''audiocodec'', ''muxer'')] \<subseteq> set (links b)"
    by (intro exI[of _ b2] exI[of _ w2] conjI) simp_all
  from c1 c2 show ?thesis by (intro conjI)
qed

section \<open>The channel-status push\<close>

lemma push_without_client:
  assumes en: "streaming_destination (config w) = ''justin.tv'' \<and> use_justin_api (config w) = ''yes''"
    and inst: "element_installed env ''flvmux''" "element_installed env ''rtmpsink''"
      "audio \<longrightarrow> element_installed env ''queue'' \<and> element_installed env ''audioconvert'' \<and>
         element_installed env ''level'' \<and> element_installed env (audio_codec (config w))"
      "video \<longrightarrow> element_installed env ''queue'' \<and> element_installed env ''x264enc''"
    and none: "justin_api w = None"
  shows "fst (get_output_bin env audio video md w) = Inl (AttributeError ''set_channel_status'')"
proof -
  from get_output_bin_reaches_push[OF inst, of md] obtain b wp where
    a: "config wp = config w \<and> justin_api wp = justin_api w \<and> requests wp = requests w \<and>
        get_output_bin env audio video md w =
          andthen (push_channel_status env md wp) (\<lambda>_ w'. (Inr b, w'))"
    by (elim exE)
  from a en none have
    "push_channel_status env md wp = (Inl (AttributeError ''set_channel_status''), wp)"
    by (simp add: push_channel_status_def STREAMING_DESTINATION_VALUES_def)
  with a show ?thesis by simp
qed

lemma push_with_client_no_metadata:
  assumes en: "streaming_destination (config w) = ''justin.tv'' \<and> use_justin_api (config w) = ''yes''"
    and inst: "element_installed env ''flvmux''" "element_installed env ''rtmpsink''"
      "audio \<longrightarrow> element_installed env ''queue'' \<and> element_installed env ''audioconvert'' \<and>
         element_installed env ''level'' \<and> element_installed env (audio_codec (config w))"
      "video \<longrightarrow> element_installed env ''queue'' \<and> element_installed env ''x264enc''"
    and some: "justin_api w = Some api"
  shows "\<exists>b wp. config wp = config w \<and> requests wp = requests w \<and>
           get_output_bin env audio video None w =
             (case set_channel_status env [] [] (api, wp) of
                (r, api', p) \<Rightarrow>
                  (case r of Inl e \<Rightarrow> Inl e | Inr u \<Rightarrow> Inr b, p\<lparr>justin_api := Some api'\<rparr>))"
proof -
  from get_output_bin_reaches_push[OF inst, of None] obtain b wp where
    a: "config wp = config w \<and> justin_api wp = justin_api w \<and> requests wp = requests w \<and>
        get_output_bin env audio video None w =
          andthen (push_channel_status env None wp) (\<lambda>_ w'. (Inr b, w'))"
    by (elim exE)
  from a en some have
    "push_channel_status env None wp =
       (case set_channel_status env [] [] (api, wp) of
          (r, api', p) \<Rightarrow> (r, p\<lparr>justin_api := Some api'\<rparr>))"
    by (simp add: push_channel_status_def STREAMING_DESTINATION_VALUES_def
        get_talk_status_def get_description_def falsy_def)
  with a have "get_output_bin env audio video None w =
             (case set_channel_status env [] [] (api, wp) of
                (r, api', p) \<Rightarrow>
                  (case r of Inl e \<Rightarrow> Inl e | Inr u \<Rightarrow> Inr b, p\<lparr>justin_api := Some api'\<rparr>))"
    by (simp add: andthen_def split: prod.splits sum.splits)
  with a show ?thesis by (intro exI[of _ b] exI[of _ wp]) simp
qed

lemma set_channel_status_not_json:
  "fst (set_channel_status env0 [] [] (client_with_config, wp)) = Inl JSONDecodeError"
  by (simp add: set_channel_status_def get_data_def except_KeyError_def
      self_config_def http_send_def env0_def client_with_config_def client_def)

text \<open>
  C1. The claim is that whatever fails inside the push is caught and logged and the wired
  bin is still returned. \<^verbatim>\<open>get_output_bin\<close> has no handler around the push, and the
  client's methods catch \<^verbatim>\<open>KeyError\<close> only. With the platform as destination and the
  push enabled: a plugin on which no client was installed raises \<^verbatim>\<open>AttributeError\<close>
  at \<^verbatim>\<open>self.justin_api.set_channel_status\<close>; and with a client that holds credentials
  and an access token, a reply that is not JSON raises the decoder's fault through
  \<^verbatim>\<open>get_data\<close>, \<^verbatim>\<open>set_channel_status\<close> and \<^verbatim>\<open>get_output_bin\<close>. No bin is
  returned in either run.
\<close>

theorem push_failure_reaches_the_caller:
  "fst (get_output_bin env0 True True None (world0\<lparr>config := justin_config\<rparr>))
     = Inl (AttributeError ''set_channel_status'') \<and>
   fst (get_output_bin env0 True True None
          (world0\<lparr>config := justin_config, justin_api := Some client_with_config\<rparr>))
     = Inl JSONDecodeError"
proof -
  let ?u = "world0\<lparr>config := justin_config\<rparr>"
  let ?w = "world0\<lparr>config := justin_config, justin_api := Some client_with_config\<rparr>"
  have c1: "fst (get_output_bin env0 True True None ?u) = Inl (AttributeError ''set_channel_status'')"
    by (rule push_without_client)
       (simp_all add: justin_config_def env0_def world0_def)
  have "\<exists>b wp. config wp = config ?w \<and> requests wp = requests ?w \<and>
           get_output_bin env0 True True None ?w =
             (case set_channel_status env0 [] [] (client_with_config, wp) of
                (r, api', p) \<Rightarrow>
                  (case r of Inl e \<Rightarrow> Inl e | Inr u \<Rightarrow> Inr b, p\<lparr>justin_api := Some api'\<rparr>))"
    by (rule push_with_client_no_metadata)
       (simp_all add: justin_config_def env0_def)
  then obtain b wp where
    a: "config wp = config ?w \<and> requests wp = requests ?w \<and>
           get_output_bin env0 True True None ?w =
             (case set_channel_status env0 [] [] (client_with_config, wp) of
                (r, api', p) \<Rightarrow>
                  (case r of Inl e \<Rightarrow> Inl e | Inr u \<Rightarrow> Inr b, p\<lparr>justin_api := Some api'\<rparr>))"
    by (elim exE)
  from set_channel_status_not_json[of wp] a have c2:
    "fst (get_output_bin env0 True True None ?w) = Inl JSONDecodeError"
    by (simp split: prod.splits)
  from c1 c2 show ?thesis by simp
qed

section \<open>Reachable states: no client, no platform call\<close>


















end
